theory Spec2Isabelle
  imports Main
begin

section \<open>The TechDocs reader page context (plugins/techdocs-react/src/context.tsx)\<close>

text \<open>
  The file defines a provider component that resolves an entity reference and a path,
  starts two metadata requests, keeps three pieces of view state and publishes all of
  it through a versioned context, and a consumer hook that reads that context.

  JavaScript values are modelled as follows. \<open>undefined\<close> is \<open>None\<close>. An object that
  the code compares or passes on by reference carries its identity next to its
  fields. A hook is a function of the cell the framework keeps for it between
  renders (\<open>None\<close> on mount) and returns the cell it leaves behind.
\<close>

subsection \<open>Values\<close>

text \<open>
  Identities of the objects that the code handles by reference: objects made by the
  caller (numbered), the object literal \<open>{ namespace, kind, name }\<close> that the \<open>useMemo\<close>
  callback of \<open>useTechDocsReaderPageState\<close> builds for a given \<open>params\<close> object and that
  \<open>useMemo\<close> hands back for as long as \<open>params\<close> is that same object, and the object
  literal inside the module constant \<open>defaultTechDocsReaderPageValue\<close>.
\<close>

datatype identity = Caller nat | DefaultStateOf identity | ModuleConstant

datatype 'a obj = Obj (identity: identity) (content: 'a)

text \<open>
  \<open>CompoundEntityRef\<close> of the catalog model. Its declared fields are strings; a field
  read from the route parameters may be \<open>undefined\<close> at run time, so every field is a
  \<open>string option\<close>.
\<close>

record CompoundEntityRef =
  kind :: "string option"
  namespace :: "string option"
  name :: "string option"

datatype js_error = Error string

text \<open>
  \<open>AsyncState<T>\<close> of react-use: \<open>loading\<close> is always there, \<open>error\<close> and \<open>value\<close>
  are optional.
\<close>

record 'a AsyncState =
  loading :: bool
  error :: "js_error option"
  val :: "'a option"

text \<open>
  \<open>Dispatch<SetStateAction<S>>\<close>: a setter takes either the new state or a function
  of the previous one, returns nothing, and acts on the state \<open>'st\<close> of whoever owns
  the cell.
\<close>

datatype 'a SetStateAction = NewState 'a | Updater "'a \<Rightarrow> 'a"

fun applyAction :: "'a SetStateAction \<Rightarrow> 'a \<Rightarrow> 'a" where
  "applyAction (NewState v) prev = v"
| "applyAction (Updater f) prev = f prev"

type_synonym ('a, 'st) Dispatch = "'a SetStateAction \<Rightarrow> 'st \<Rightarrow> unit \<times> 'st"

text \<open>
  \<open>TechDocsReaderPageValue\<close>, fields in the order of the type. \<open>'m\<close>, \<open>'em\<close> and \<open>'sr\<close>
  stand for \<open>TechDocsMetadata\<close>, \<open>TechDocsEntityMetadata\<close> and \<open>ShadowRoot\<close>. The
  deprecated optional \<open>onReady\<close> is never set in this file and is left out.
\<close>

record ('m, 'em, 'sr, 'st) TechDocsReaderPageValue =
  metadata :: "'m AsyncState"
  path :: string
  entityRef :: "CompoundEntityRef obj"
  entityMetadata :: "'em AsyncState"
  shadowRoot :: "'sr option"
  setShadowRoot :: "('sr option, 'st) Dispatch"
  title :: string
  setTitle :: "(string, 'st) Dispatch"
  subtitle :: string
  setSubtitle :: "(string, 'st) Dispatch"

definition defaultTechDocsReaderPageValue :: "('m, 'em, 'sr, 'st) TechDocsReaderPageValue" where
  "defaultTechDocsReaderPageValue =
     \<lparr> metadata = \<lparr> loading = True, error = None, val = None \<rparr>,
       path = '''',
       entityRef = Obj ModuleConstant \<lparr> kind = Some '''', namespace = Some '''', name = Some '''' \<rparr>,
       entityMetadata = \<lparr> loading = True, error = None, val = None \<rparr>,
       shadowRoot = None,
       setShadowRoot = (\<lambda>_ s. ((), s)),
       title = '''',
       setTitle = (\<lambda>_ s. ((), s)),
       subtitle = '''',
       setSubtitle = (\<lambda>_ s. ((), s)) \<rparr>"

subsection \<open>Equality of props\<close>

text \<open>
  \<open>stringifyEntityRef\<close> belongs to the catalog model and is a parameter here.
\<close>

definition areEntityRefsEqual ::
  "(CompoundEntityRef \<Rightarrow> string) \<Rightarrow> CompoundEntityRef obj \<Rightarrow> CompoundEntityRef obj \<Rightarrow> bool" where
  "areEntityRefsEqual stringifyEntityRef prevEntityRef nextEntityRef =
     (stringifyEntityRef (content prevEntityRef) = stringifyEntityRef (content nextEntityRef))"

definition arePathsEqual :: "string option \<Rightarrow> string option \<Rightarrow> bool" where
  "arePathsEqual prevPath nextPath = (prevPath = nextPath)"

subsection \<open>Props and the route\<close>

text \<open>
  An optional property \<open>k?: T\<close> of an object is left out, or is an own property whose
  value may still be \<open>undefined\<close>. Reading it gives \<open>undefined\<close> in the first case and
  the value in the second; spreading the object copies it in the second case only.
\<close>

datatype 'a optional = Omitted | Passed "'a option"

fun read_key :: "'a optional \<Rightarrow> 'a option" where
  "read_key Omitted = None"
| "read_key (Passed v) = v"

text \<open>
  \<open>TechDocsReaderPageProviderProps\<close>: \<open>path\<close> is optional, \<open>entityRef\<close> is required.
  \<open>children\<close> are rendered below the context and take no part in the value.
\<close>

record TechDocsReaderPageProviderProps =
  props_path :: "string optional"
  props_entityRef :: "CompoundEntityRef obj"

text \<open>
  \<open>TechDocsReaderPageState\<close>, the partial pick of \<open>path\<close> and \<open>entityRef\<close>. The hook's
  default argument \<open>{}\<close> omits both; the provider passes the rest of its props, in
  which \<open>entityRef\<close> is an object.
\<close>

record TechDocsReaderPageState =
  state_path :: "string optional"
  state_entityRef :: "CompoundEntityRef obj option"

text \<open>What the hook returns: \<open>path\<close> as found after the spread, and an entity reference.\<close>

record ResolvedState =
  resolved_path :: "string option"
  resolved_entityRef :: "CompoundEntityRef obj"

text \<open>
  The object returned by \<open>useParams\<close>: route parameter names to captured strings.
  In the hook, \<open>useMemo\<close> keeps the default state for as long as \<open>params\<close> is the same
  object; what it holds is the result of its callback on \<open>params\<close>. The destructuring
  reads four keys and gives the catch-all \<open>'*'\<close> the default \<open>''\<close>; the spread lets every
  own property of \<open>initialState\<close> replace the one of the default state.
\<close>

type_synonym Params = "(string \<rightharpoonup> string) obj"

definition useTechDocsReaderPageState :: "Params \<Rightarrow> TechDocsReaderPageState \<Rightarrow> ResolvedState" where
  "useTechDocsReaderPageState params initialState =
     (let defaultState =
            \<lparr> resolved_path = Some (case content params ''*'' of None \<Rightarrow> '''' | Some p \<Rightarrow> p),
              resolved_entityRef =
                Obj (DefaultStateOf (identity params))
                    \<lparr> kind = content params ''kind'',
                      namespace = content params ''namespace'',
                      name = content params ''name'' \<rparr> \<rparr>
      in \<lparr> resolved_path =
             (case state_path initialState of
                Omitted \<Rightarrow> resolved_path defaultState
              | Passed p \<Rightarrow> p),
           resolved_entityRef =
             (case state_entityRef initialState of
                None \<Rightarrow> resolved_entityRef defaultState
              | Some r \<Rightarrow> r) \<rparr>)"

subsection \<open>The versioned context\<close>

text \<open>
  Modelled from the spec: \<open>createVersionedValueMap\<close> and \<open>atVersion\<close> of the version
  bridge are not among the sources. The spec describes the mechanism as a registry
  mapping an integer schema version to a value, with explicit presence checks.
\<close>

type_synonym 'v VersionedValue = "nat \<rightharpoonup> 'v"

definition createVersionedValueMap :: "(nat \<rightharpoonup> 'v) \<Rightarrow> 'v VersionedValue" where
  "createVersionedValueMap versions = versions"

definition atVersion :: "'v VersionedValue \<Rightarrow> nat \<Rightarrow> 'v option" where
  "atVersion versionedValue version = versionedValue version"

text \<open>
  \<open>useTechDocsReaderPage\<close>. Its argument is what \<open>useContext\<close> finds: \<open>None\<close> without an
  enclosing provider, otherwise the versioned value of the nearest one. The thrown
  error is the \<open>Inl\<close> branch.
\<close>

definition useTechDocsReaderPage ::
  "('m, 'em, 'sr, 'st) TechDocsReaderPageValue VersionedValue option
     \<Rightarrow> js_error + ('m, 'em, 'sr, 'st) TechDocsReaderPageValue" where
  "useTechDocsReaderPage versionedContext =
     (case versionedContext of
        None \<Rightarrow> Inr defaultTechDocsReaderPageValue
      | Some vc \<Rightarrow>
          (case atVersion vc 1 of
             None \<Rightarrow> Inl (Error ''No context found for version 1.'')
           | Some context \<Rightarrow> Inr context))"

subsection \<open>The hooks the provider calls\<close>

text \<open>
  \<open>useState\<close> of the framework: the state is the initial one on mount and the content
  of the cell afterwards.
\<close>

definition useState :: "'a option \<Rightarrow> 'a \<Rightarrow> 'a" where
  "useState cell initialState = (case cell of None \<Rightarrow> initialState | Some s \<Rightarrow> s)"

text \<open>
  Modelled from the spec: \<open>useAsync\<close> of react-use is not among the sources. The spec
  has it issue the fetch on mount and whenever its dependency changes, and track
  the fetch as a load-state that is pending, a success with a value or an error
  with a value; a rejection is captured in the load-state and never thrown. What
  counts as a change is fixed by the source and the framework: the dependency list
  of both calls is \<open>[entityRef]\<close>, and the framework compares the entries of a
  dependency list with \<open>Object.is\<close>, which for objects is identity.

  The cell keeps the load-state, the dependency of the last render and the number of
  fetches the hook has issued; a fetch is known by its number, the first being 1. The
  hook gives the render the load-state found in the cell; the fetch goes out after
  the render, and the cell is pending from then on.
\<close>

record 'a AsyncCell =
  async_state :: "'a AsyncState"
  async_deps :: identity
  async_calls :: nat

record 'a AsyncHook =
  current :: "'a AsyncState"
  cell :: "'a AsyncCell"
  called :: bool

definition pending :: "'a AsyncState" where
  "pending = \<lparr> loading = True, error = None, val = None \<rparr>"

definition useAsync :: "'a AsyncCell option \<Rightarrow> identity \<Rightarrow> 'a AsyncHook" where
  "useAsync previous deps =
     (case previous of
        None \<Rightarrow>
          \<lparr> current = pending,
            cell = \<lparr> async_state = pending, async_deps = deps, async_calls = 1 \<rparr>,
            called = True \<rparr>
      | Some c \<Rightarrow>
          if async_deps c = deps
          then \<lparr> current = async_state c, cell = c, called = False \<rparr>
          else \<lparr> current = async_state c,
                 cell = \<lparr> async_state = pending, async_deps = deps,
                          async_calls = Suc (async_calls c) \<rparr>,
                 called = True \<rparr>)"

fun settled :: "js_error + 'a \<Rightarrow> 'a AsyncState" where
  "settled (Inl e) = \<lparr> loading = False, error = Some e, val = None \<rparr>"
| "settled (Inr v) = \<lparr> loading = False, error = None, val = Some v \<rparr>"

text \<open>
  Modelled from the spec: when the fetch numbered \<open>callId\<close> settles, its outcome becomes
  the load-state if it is the fetch the hook issued last. Section 5 of the spec has
  the result of a fetch invalidated once the entity reference has been superseded, so
  the outcome of an earlier fetch, or of a fetch the hook never issued, changes
  nothing.
\<close>

definition settle :: "nat \<Rightarrow> js_error + 'a \<Rightarrow> 'a AsyncCell \<Rightarrow> 'a AsyncCell" where
  "settle callId outcome c =
     (if 0 < callId \<and> callId = async_calls c
      then c\<lparr> async_state := settled outcome \<rparr>
      else c)"

subsection \<open>The provider\<close>

text \<open>The two calls of the TechDocs API, with the entity reference they are given.\<close>

datatype ApiCall =
  GetTechDocsMetadata "CompoundEntityRef obj"
| GetEntityMetadata "CompoundEntityRef obj"

text \<open>
  What the framework keeps for one mounted provider: the props of its last render,
  the cells of its five hooks, and the API calls made so far, in order.
\<close>

record ('m, 'em, 'sr) ProviderInstance =
  rendered_props :: TechDocsReaderPageProviderProps
  metadata_cell :: "'m AsyncCell"
  entityMetadata_cell :: "'em AsyncCell"
  title_cell :: string
  subtitle_cell :: string
  shadowRoot_cell :: "'sr option"
  requests :: "ApiCall list"

type_synonym ('m, 'em, 'sr) ProviderValue =
  "('m, 'em, 'sr, ('m, 'em, 'sr) ProviderInstance) TechDocsReaderPageValue"

text \<open>The setters that \<open>useState\<close> returns: each writes its own cell.\<close>

definition title_setter :: "(string, ('m, 'em, 'sr) ProviderInstance) Dispatch" where
  "title_setter action fiber = ((), fiber\<lparr> title_cell := applyAction action (title_cell fiber) \<rparr>)"

definition subtitle_setter :: "(string, ('m, 'em, 'sr) ProviderInstance) Dispatch" where
  "subtitle_setter action fiber =
     ((), fiber\<lparr> subtitle_cell := applyAction action (subtitle_cell fiber) \<rparr>)"

definition shadowRoot_setter :: "('sr option, ('m, 'em, 'sr) ProviderInstance) Dispatch" where
  "shadowRoot_setter action fiber =
     ((), fiber\<lparr> shadowRoot_cell := applyAction action (shadowRoot_cell fiber) \<rparr>)"

text \<open>
  One render of the component: the value handed to the children, the versioned value
  given to the context, and the instance once the effects of the render have run.
  The API object that \<open>useApi\<close> returns is the receiver of the two calls and nothing
  else; a call is recorded with the entity reference it is given.
\<close>

record ('m, 'em, 'sr) Render =
  exposed :: "('m, 'em, 'sr) ProviderValue"
  provided :: "('m, 'em, 'sr) ProviderValue VersionedValue"
  committed :: "('m, 'em, 'sr) ProviderInstance"

definition TechDocsReaderPageProvider ::
  "('m, 'em, 'sr) ProviderInstance option \<Rightarrow> TechDocsReaderPageProviderProps \<Rightarrow> Params
     \<Rightarrow> ('m, 'em, 'sr) Render" where
  "TechDocsReaderPageProvider fiber props params =
     (let rest = \<lparr> state_path = props_path props,
                   state_entityRef = Some (props_entityRef props) \<rparr>;
          state = useTechDocsReaderPageState params rest;
          path' = (case resolved_path state of None \<Rightarrow> '''' | Some p \<Rightarrow> p);
          entityRef' = resolved_entityRef state;
          metadata' = useAsync (map_option metadata_cell fiber) (identity entityRef');
          entityMetadata' = useAsync (map_option entityMetadata_cell fiber) (identity entityRef');
          title' = useState (map_option title_cell fiber)
                     (title (defaultTechDocsReaderPageValue :: ('m, 'em, 'sr) ProviderValue));
          subtitle' = useState (map_option subtitle_cell fiber)
                        (subtitle (defaultTechDocsReaderPageValue :: ('m, 'em, 'sr) ProviderValue));
          shadowRoot' = useState (map_option shadowRoot_cell fiber)
                          (shadowRoot (defaultTechDocsReaderPageValue :: ('m, 'em, 'sr) ProviderValue));
          value' = \<lparr> metadata = current metadata',
                     path = path',
                     entityRef = entityRef',
                     entityMetadata = current entityMetadata',
                     shadowRoot = shadowRoot',
                     setShadowRoot = shadowRoot_setter,
                     title = title',
                     setTitle = title_setter,
                     subtitle = subtitle',
                     setSubtitle = subtitle_setter \<rparr>;
          versionedValue = createVersionedValueMap [1 \<mapsto> value']
      in \<lparr> exposed = value',
           provided = versionedValue,
           committed =
             \<lparr> rendered_props = props,
               metadata_cell = cell metadata',
               entityMetadata_cell = cell entityMetadata',
               title_cell = title',
               subtitle_cell = subtitle',
               shadowRoot_cell = shadowRoot',
               requests =
                 (case fiber of None \<Rightarrow> [] | Some f \<Rightarrow> requests f)
                 @ (if called metadata' then [GetTechDocsMetadata entityRef'] else [])
                 @ (if called entityMetadata' then [GetEntityMetadata entityRef'] else []) \<rparr> \<rparr>)"

text \<open>The second argument of \<open>memo\<close>.\<close>

definition propsAreEqual ::
  "(CompoundEntityRef \<Rightarrow> string) \<Rightarrow> TechDocsReaderPageProviderProps
     \<Rightarrow> TechDocsReaderPageProviderProps \<Rightarrow> bool" where
  "propsAreEqual stringifyEntityRef prevProps nextProps =
     (areEntityRefsEqual stringifyEntityRef (props_entityRef prevProps) (props_entityRef nextProps)
      \<and> arePathsEqual (read_key (props_path prevProps)) (read_key (props_path nextProps)))"

subsection \<open>What happens to a mounted provider\<close>

text \<open>
  Mounting renders without an instance. When the parent renders the provider again,
  \<open>memo\<close> compares the props of the last render with the new ones and skips the
  render (\<open>None\<close>: the instance stays as it is) when the comparison says they are
  equal. A change of the provider's own state renders it again with the props it has.
\<close>

definition mount ::
  "TechDocsReaderPageProviderProps \<Rightarrow> Params \<Rightarrow> ('m, 'em, 'sr) ProviderInstance" where
  "mount props params = committed (TechDocsReaderPageProvider None props params)"

definition parentRender ::
  "(CompoundEntityRef \<Rightarrow> string) \<Rightarrow> ('m, 'em, 'sr) ProviderInstance
     \<Rightarrow> TechDocsReaderPageProviderProps \<Rightarrow> Params \<Rightarrow> ('m, 'em, 'sr) Render option" where
  "parentRender stringifyEntityRef fiber nextProps params =
     (if propsAreEqual stringifyEntityRef (rendered_props fiber) nextProps then None
      else Some (TechDocsReaderPageProvider (Some fiber) nextProps params))"

definition afterParentRender ::
  "(CompoundEntityRef \<Rightarrow> string) \<Rightarrow> ('m, 'em, 'sr) ProviderInstance
     \<Rightarrow> TechDocsReaderPageProviderProps \<Rightarrow> Params \<Rightarrow> ('m, 'em, 'sr) ProviderInstance" where
  "afterParentRender stringifyEntityRef fiber nextProps params =
     (case parentRender stringifyEntityRef fiber nextProps params of
        None \<Rightarrow> fiber
      | Some r \<Rightarrow> committed r)"

definition ownRender ::
  "('m, 'em, 'sr) ProviderInstance \<Rightarrow> Params \<Rightarrow> ('m, 'em, 'sr) Render" where
  "ownRender fiber params = TechDocsReaderPageProvider (Some fiber) (rendered_props fiber) params"

text \<open>
  Modelled from the spec: the outcome of a fetch reaches the hook that issued it, and
  that hook only (the two fetches update independent pieces of state). The first
  argument is the number of the fetch among those of its hook.
\<close>

definition metadataSettled ::
  "nat \<Rightarrow> js_error + 'm \<Rightarrow> ('m, 'em, 'sr) ProviderInstance \<Rightarrow> ('m, 'em, 'sr) ProviderInstance" where
  "metadataSettled callId outcome fiber =
     fiber\<lparr> metadata_cell := settle callId outcome (metadata_cell fiber) \<rparr>"

definition entityMetadataSettled ::
  "nat \<Rightarrow> js_error + 'em \<Rightarrow> ('m, 'em, 'sr) ProviderInstance \<Rightarrow> ('m, 'em, 'sr) ProviderInstance" where
  "entityMetadataSettled callId outcome fiber =
     fiber\<lparr> entityMetadata_cell := settle callId outcome (entityMetadata_cell fiber) \<rparr>"

text \<open>A sample \<open>stringifyEntityRef\<close>, used where a concrete one is needed.\<close>

definition stringifyPlain :: "CompoundEntityRef \<Rightarrow> string" where
  "stringifyPlain r =
     (case kind r of None \<Rightarrow> '''' | Some k \<Rightarrow> k) @ '':''
     @ (case namespace r of None \<Rightarrow> ''default'' | Some n \<Rightarrow> n) @ ''/''
     @ (case name r of None \<Rightarrow> '''' | Some n \<Rightarrow> n)"


text \<open>Sample inputs: an entity reference and a route with the trailing path \<open>overview\<close>.\<close>

definition component_foo :: CompoundEntityRef where
  "component_foo = \<lparr> kind = Some ''Component'', namespace = Some ''default'', name = Some ''foo'' \<rparr>"

definition route_overview :: Params where
  "route_overview =
     Obj (Caller 0)
       [''namespace'' \<mapsto> ''default'', ''kind'' \<mapsto> ''Component'', ''name'' \<mapsto> ''foo'',
        ''*'' \<mapsto> ''overview'']"

section \<open>Properties\<close>

subsection \<open>Facts about one render\<close>

lemma rendered_props_committed:
  "rendered_props (committed (TechDocsReaderPageProvider fiber props params)) = props"
  by (simp add: TechDocsReaderPageProvider_def Let_def)

lemma rendered_props_mount:
  "rendered_props (mount props params) = props"
  by (simp add: mount_def rendered_props_committed)

lemma called_useAsync:
  "called (useAsync (Some c) d) = (async_deps c \<noteq> d)"
  "called (useAsync None d) = True"
  by (simp_all add: useAsync_def)

lemma async_deps_committed:
  "async_deps (metadata_cell (committed (TechDocsReaderPageProvider fiber props params)))
     = identity (props_entityRef props)"
  "async_deps (entityMetadata_cell (committed (TechDocsReaderPageProvider fiber props params)))
     = identity (props_entityRef props)"
  by (simp_all add: TechDocsReaderPageProvider_def Let_def useTechDocsReaderPageState_def
        useAsync_def split: option.splits)

lemma requests_committed:
  fixes fiber :: "('m, 'em, 'sr) ProviderInstance option"
  shows "requests (committed (TechDocsReaderPageProvider fiber props params)) =
     (case fiber of None \<Rightarrow> [] | Some f \<Rightarrow> requests f)
     @ (if called (useAsync (map_option metadata_cell fiber)
                     (identity (props_entityRef props)) :: 'm AsyncHook)
        then [GetTechDocsMetadata (props_entityRef props)] else [])
     @ (if called (useAsync (map_option entityMetadata_cell fiber)
                     (identity (props_entityRef props)) :: 'em AsyncHook)
        then [GetEntityMetadata (props_entityRef props)] else [])"
  by (simp add: TechDocsReaderPageProvider_def Let_def useTechDocsReaderPageState_def)

lemma requests_mount:
  "requests (mount props params :: ('m, 'em, 'sr) ProviderInstance)
     = [GetTechDocsMetadata (props_entityRef props), GetEntityMetadata (props_entityRef props)]"
  by (simp add: mount_def requests_committed called_useAsync)

lemma requests_next_render:
  fixes fiber :: "('m, 'em, 'sr) ProviderInstance option"
  shows "requests (committed (TechDocsReaderPageProvider
            (Some (committed (TechDocsReaderPageProvider fiber prevProps params))) nextProps params'))
     = requests (committed (TechDocsReaderPageProvider fiber prevProps params))
       @ (if identity (props_entityRef nextProps) = identity (props_entityRef prevProps) then []
          else [GetTechDocsMetadata (props_entityRef nextProps),
                GetEntityMetadata (props_entityRef nextProps)])"
  by (simp add: requests_committed [of "Some (committed (TechDocsReaderPageProvider fiber prevProps params))"]
        called_useAsync async_deps_committed)

lemma metadata_cell_mount:
  "metadata_cell (mount props params)
     = \<lparr> async_state = pending, async_deps = identity (props_entityRef props), async_calls = 1 \<rparr>"
  by (simp add: mount_def TechDocsReaderPageProvider_def Let_def useAsync_def
        useTechDocsReaderPageState_def)

lemma metadata_cell_next_render:
  "metadata_cell (committed (TechDocsReaderPageProvider (Some fiber) props params))
     = (if async_deps (metadata_cell fiber) = identity (props_entityRef props)
        then metadata_cell fiber
        else \<lparr> async_state = pending, async_deps = identity (props_entityRef props),
               async_calls = Suc (async_calls (metadata_cell fiber)) \<rparr>)"
  by (simp add: TechDocsReaderPageProvider_def Let_def useAsync_def
        useTechDocsReaderPageState_def)

lemma metadata_exposed_next_render:
  "metadata (exposed (TechDocsReaderPageProvider (Some fiber) props params))
     = async_state (metadata_cell fiber)"
  by (simp add: TechDocsReaderPageProvider_def Let_def useAsync_def)

lemma metadataSettled_superseded:
  "callId \<noteq> async_calls (metadata_cell fiber) \<Longrightarrow> metadataSettled callId outcome fiber = fiber"
  by (simp add: metadataSettled_def settle_def)


lemma afterParentRender_rendered:
  "\<not> propsAreEqual stringifyEntityRef (rendered_props fiber) nextProps \<Longrightarrow>
     afterParentRender stringifyEntityRef fiber nextProps params
       = committed (TechDocsReaderPageProvider (Some fiber) nextProps params)"
  by (simp add: afterParentRender_def parentRender_def)

subsection \<open>The consumer hook\<close>

text \<open>
  C2. Called with no enclosing provider, the hook does not throw and returns the
  default value: path, title and subtitle are empty strings, the entity reference
  has three empty strings, and both load-states have \<open>loading\<close> true.
\<close>

theorem hook_without_provider_returns_default:
  "useTechDocsReaderPage None =
     Inr (defaultTechDocsReaderPageValue :: ('m, 'em, 'sr, 'st) TechDocsReaderPageValue)
   \<and> path (defaultTechDocsReaderPageValue :: ('m, 'em, 'sr, 'st) TechDocsReaderPageValue) = ''''
   \<and> title (defaultTechDocsReaderPageValue :: ('m, 'em, 'sr, 'st) TechDocsReaderPageValue) = ''''
   \<and> subtitle (defaultTechDocsReaderPageValue :: ('m, 'em, 'sr, 'st) TechDocsReaderPageValue) = ''''
   \<and> content (entityRef (defaultTechDocsReaderPageValue :: ('m, 'em, 'sr, 'st) TechDocsReaderPageValue))
       = \<lparr> kind = Some '''', namespace = Some '''', name = Some '''' \<rparr>
   \<and> loading (metadata (defaultTechDocsReaderPageValue :: ('m, 'em, 'sr, 'st) TechDocsReaderPageValue))
       = True
   \<and> loading (entityMetadata (defaultTechDocsReaderPageValue :: ('m, 'em, 'sr, 'st) TechDocsReaderPageValue))
       = True"
  by (simp add: useTechDocsReaderPage_def defaultTechDocsReaderPageValue_def)

text \<open>
  C4. Called below a provider whose versioned value has nothing at version 1, the
  hook throws: the result is the error, neither a value nor the default.
\<close>

theorem hook_throws_without_version_1:
  assumes "atVersion vc 1 = None"
  shows "useTechDocsReaderPage (Some vc) = Inl (Error ''No context found for version 1.'')"
  using assms by (simp add: useTechDocsReaderPage_def)

theorem hook_throws_without_version_1_witness:
  "atVersion (createVersionedValueMap
        [2 \<mapsto> (defaultTechDocsReaderPageValue :: (unit, unit, unit, unit) TechDocsReaderPageValue)]) 1
     = None
   \<and> useTechDocsReaderPage (Some (createVersionedValueMap
        [2 \<mapsto> (defaultTechDocsReaderPageValue :: (unit, unit, unit, unit) TechDocsReaderPageValue)]))
     = Inl (Error ''No context found for version 1.'')"
proof -
  have absent: "atVersion (createVersionedValueMap
        [2 \<mapsto> (defaultTechDocsReaderPageValue :: (unit, unit, unit, unit) TechDocsReaderPageValue)]) 1
     = None"
    by (simp add: atVersion_def createVersionedValueMap_def)
  from absent hook_throws_without_version_1 [OF absent] show ?thesis by simp
qed

text \<open>
  C8. The three setters of the default value do nothing: whatever the argument, the
  call returns and leaves the state it is run in as it was.
\<close>

theorem default_setters_are_noops:
  "setTitle defaultTechDocsReaderPageValue a s = ((), s)
   \<and> setSubtitle defaultTechDocsReaderPageValue b s = ((), s)
   \<and> setShadowRoot defaultTechDocsReaderPageValue c s = ((), s)"
  by (simp add: defaultTechDocsReaderPageValue_def)

text \<open>
  C9. Every render of the provider publishes its value at version 1 and at no other
  version, so the hook called below it finds version 1 and returns the exposed value;
  it does not throw.
\<close>

theorem provider_publishes_version_1_only:
  "dom (provided (TechDocsReaderPageProvider fiber props params)) = {1}
   \<and> atVersion (provided (TechDocsReaderPageProvider fiber props params)) 1
       = Some (exposed (TechDocsReaderPageProvider fiber props params))
   \<and> useTechDocsReaderPage (Some (provided (TechDocsReaderPageProvider fiber props params)))
       = Inr (exposed (TechDocsReaderPageProvider fiber props params))"
  by (simp add: TechDocsReaderPageProvider_def Let_def createVersionedValueMap_def atVersion_def
        useTechDocsReaderPage_def)

subsection \<open>The resolved state\<close>

text \<open>
  C10. When the hook is given no entity reference, the one it returns has exactly
  what the route parameters hold in \<open>kind\<close>, \<open>namespace\<close> and \<open>name\<close>: a parameter that
  the route does not have stays \<open>undefined\<close> in the field, with no check and no
  default string in between.
\<close>

theorem route_entityRef_keeps_undefined_fields:
  assumes "state_entityRef initialState = None"
  shows "content (resolved_entityRef (useTechDocsReaderPageState params initialState))
     = \<lparr> kind = content params ''kind'',
         namespace = content params ''namespace'',
         name = content params ''name'' \<rparr>"
  using assms by (simp add: useTechDocsReaderPageState_def)

theorem route_entityRef_keeps_undefined_fields_witness:
  "state_entityRef \<lparr> state_path = Omitted, state_entityRef = None \<rparr> = None
   \<and> content (resolved_entityRef (useTechDocsReaderPageState
         (Obj (Caller 0) [''kind'' \<mapsto> ''Component''])
         \<lparr> state_path = Omitted, state_entityRef = None \<rparr>))
     = \<lparr> kind = Some ''Component'', namespace = None, name = None \<rparr>"
proof -
  have omitted: "state_entityRef \<lparr> state_path = Omitted, state_entityRef = None \<rparr> = None"
    by simp
  from omitted
    route_entityRef_keeps_undefined_fields
      [OF omitted, of "Obj (Caller 0) [''kind'' \<mapsto> ''Component'']"]
  show ?thesis by simp
qed




subsection \<open>View state and load-states\<close>


text \<open>
  C5, as the code has it. Take the instance left by a render and reject the
  \<open>getTechDocsMetadata\<close> fetch that the hook issued last, with \<open>e\<close>. The metadata
  load-state then has \<open>error\<close> set to \<open>e\<close> and \<open>loading\<close> false, in the value of the
  next render and in the cell after it, and that render issues no fetch. The
  rejection of a fetch that is not the last one changes nothing. Whichever fetch is
  rejected, the load-state of \<open>entityMetadata\<close> is what it was, and the consumer hook
  below the provider returns the exposed value: nothing is thrown.
\<close>

theorem metadata_rejection_is_captured:
  fixes fiber :: "('m, 'em, 'sr) ProviderInstance"
  assumes rendered: "fiber = committed (TechDocsReaderPageProvider cur props params)"
    and latest: "callId = async_calls (metadata_cell fiber)"
    and issued: "0 < callId"
  shows "metadata (exposed (ownRender (metadataSettled callId (Inl e) fiber) params'))
      = \<lparr> loading = False, error = Some e, val = None \<rparr>
   \<and> async_state (metadata_cell
        (committed (ownRender (metadataSettled callId (Inl e) fiber) params')))
      = \<lparr> loading = False, error = Some e, val = None \<rparr>
   \<and> requests (committed (ownRender (metadataSettled callId (Inl e) fiber) params'))
      = requests fiber
   \<and> (other \<noteq> callId \<longrightarrow> metadataSettled other (Inl e) fiber = fiber)
   \<and> entityMetadata_cell (metadataSettled anyId (Inl e) fiber) = entityMetadata_cell fiber
   \<and> entityMetadata (exposed (ownRender (metadataSettled anyId (Inl e) fiber) params'))
      = entityMetadata (exposed (ownRender fiber params'))
   \<and> useTechDocsReaderPage
        (Some (provided (ownRender (metadataSettled anyId (Inl e) fiber) params')))
      = Inr (exposed (ownRender (metadataSettled anyId (Inl e) fiber) params'))"
proof -
  let ?rejected = "metadataSettled callId (Inl e) fiber"
  have props: "rendered_props fiber = props"
    using rendered by (simp add: rendered_props_committed)
  have deps: "async_deps (metadata_cell fiber) = identity (props_entityRef props)"
    "async_deps (entityMetadata_cell fiber) = identity (props_entityRef props)"
    using rendered by (simp_all add: async_deps_committed)
  have written: "metadata_cell ?rejected
      = (metadata_cell fiber) \<lparr> async_state := \<lparr> loading = False, error = Some e, val = None \<rparr> \<rparr>"
    using latest issued by (simp add: metadataSettled_def settle_def)
  have rest: "rendered_props ?rejected = props"
    "entityMetadata_cell ?rejected = entityMetadata_cell fiber"
    "requests ?rejected = requests fiber"
    by (simp_all add: metadataSettled_def props)
  have shown: "metadata (exposed (ownRender ?rejected params'))
      = \<lparr> loading = False, error = Some e, val = None \<rparr>"
    by (simp add: ownRender_def TechDocsReaderPageProvider_def Let_def useAsync_def written)
  have kept: "async_state (metadata_cell (committed (ownRender ?rejected params')))
      = \<lparr> loading = False, error = Some e, val = None \<rparr>"
    by (simp add: ownRender_def TechDocsReaderPageProvider_def Let_def useAsync_def
          useTechDocsReaderPageState_def written deps rest)
  have quiet: "requests (committed (ownRender ?rejected params')) = requests fiber"
    by (simp add: ownRender_def requests_committed called_useAsync written deps rest)
  have stale: "metadataSettled other (Inl e) fiber = fiber" if "other \<noteq> callId"
    using that latest by (simp add: metadataSettled_def settle_def)
  have apart: "entityMetadata_cell (metadataSettled anyId (Inl e) fiber) = entityMetadata_cell fiber"
    by (simp add: metadataSettled_def)
  have apart_shown: "entityMetadata (exposed (ownRender (metadataSettled anyId (Inl e) fiber) params'))
      = entityMetadata (exposed (ownRender fiber params'))"
    by (simp add: metadataSettled_def ownRender_def TechDocsReaderPageProvider_def Let_def
          useAsync_def)
  have returned: "useTechDocsReaderPage
        (Some (provided (ownRender (metadataSettled anyId (Inl e) fiber) params')))
      = Inr (exposed (ownRender (metadataSettled anyId (Inl e) fiber) params'))"
    by (simp add: ownRender_def TechDocsReaderPageProvider_def Let_def
          createVersionedValueMap_def atVersion_def useTechDocsReaderPage_def)
  from shown kept quiet stale apart apart_shown returned show ?thesis by blast
qed

theorem metadata_rejection_is_captured_witness:
  "(1 :: nat) = async_calls (metadata_cell
       (committed (TechDocsReaderPageProvider
          (None :: (unit, unit, unit) ProviderInstance option)
          \<lparr> props_path = Omitted, props_entityRef = Obj (Caller 1) component_foo \<rparr>
          route_overview)))
   \<and> metadata (exposed (ownRender
        (metadataSettled 1 (Inl (Error ''not found''))
           (committed (TechDocsReaderPageProvider
              (None :: (unit, unit, unit) ProviderInstance option)
              \<lparr> props_path = Omitted, props_entityRef = Obj (Caller 1) component_foo \<rparr>
              route_overview)))
        route_overview))
      = \<lparr> loading = False, error = Some (Error ''not found''), val = None \<rparr>
   \<and> entityMetadata (exposed (ownRender
        (metadataSettled 1 (Inl (Error ''not found''))
           (committed (TechDocsReaderPageProvider
              (None :: (unit, unit, unit) ProviderInstance option)
              \<lparr> props_path = Omitted, props_entityRef = Obj (Caller 1) component_foo \<rparr>
              route_overview)))
        route_overview))
      = \<lparr> loading = True, error = None, val = None \<rparr>"
proof -
  let ?props = "\<lparr> props_path = Omitted, props_entityRef = Obj (Caller 1) component_foo \<rparr>"
  let ?fiber = "committed (TechDocsReaderPageProvider
                  (None :: (unit, unit, unit) ProviderInstance option) ?props route_overview)"
  have rendered: "?fiber = committed (TechDocsReaderPageProvider None ?props route_overview)"
    by simp
  have latest: "(1 :: nat) = async_calls (metadata_cell ?fiber)"
    by (simp add: TechDocsReaderPageProvider_def Let_def useAsync_def)
  have issued: "0 < (1 :: nat)"
    by simp
  have before: "entityMetadata (exposed (ownRender ?fiber route_overview))
      = \<lparr> loading = True, error = None, val = None \<rparr>"
    by (simp add: ownRender_def TechDocsReaderPageProvider_def Let_def useAsync_def
          useTechDocsReaderPageState_def pending_def)
  from latest before
    metadata_rejection_is_captured
      [OF rendered latest issued, of "Error ''not found''" route_overview 2 1]
  show ?thesis by simp
qed

text \<open>
  C5 as stated fails for a fetch that has been superseded. After a mount for the
  entity \<open>foo\<close>, the parent renders the provider for the entity \<open>bar\<close>, and the hook
  issues its second fetch. The first fetch is then rejected: the metadata load-state
  stays pending, with \<open>loading\<close> true and no \<open>error\<close>.
\<close>

theorem superseded_rejection_is_dropped:
  "requests (afterParentRender stringifyPlain
       (mount \<lparr> props_path = Omitted, props_entityRef = Obj (Caller 1) component_foo \<rparr>
          route_overview :: (unit, unit, unit) ProviderInstance)
       \<lparr> props_path = Omitted,
         props_entityRef = Obj (Caller 2) (component_foo \<lparr> name := Some ''bar'' \<rparr>) \<rparr>
       route_overview)
     = [GetTechDocsMetadata (Obj (Caller 1) component_foo),
        GetEntityMetadata (Obj (Caller 1) component_foo),
        GetTechDocsMetadata (Obj (Caller 2) (component_foo \<lparr> name := Some ''bar'' \<rparr>)),
        GetEntityMetadata (Obj (Caller 2) (component_foo \<lparr> name := Some ''bar'' \<rparr>))]
   \<and> metadata (exposed (ownRender
        (metadataSettled 1 (Inl (Error ''not found''))
           (afterParentRender stringifyPlain
              (mount \<lparr> props_path = Omitted, props_entityRef = Obj (Caller 1) component_foo \<rparr>
                 route_overview :: (unit, unit, unit) ProviderInstance)
              \<lparr> props_path = Omitted,
                props_entityRef = Obj (Caller 2) (component_foo \<lparr> name := Some ''bar'' \<rparr>) \<rparr>
              route_overview))
        route_overview))
     = \<lparr> loading = True, error = None, val = None \<rparr>"
proof -
  let ?foo = "\<lparr> props_path = Omitted, props_entityRef = Obj (Caller 1) component_foo \<rparr>"
  let ?bar = "\<lparr> props_path = Omitted,
                props_entityRef = Obj (Caller 2) (component_foo \<lparr> name := Some ''bar'' \<rparr>) \<rparr>"
  let ?first = "mount ?foo route_overview :: (unit, unit, unit) ProviderInstance"
  let ?second = "committed (TechDocsReaderPageProvider (Some ?first) ?bar route_overview)"
  have unequal: "\<not> propsAreEqual stringifyPlain (rendered_props ?first) ?bar"
    by (simp add: rendered_props_mount propsAreEqual_def areEntityRefsEqual_def
          stringifyPlain_def component_foo_def)
  have made: "afterParentRender stringifyPlain ?first ?bar route_overview = ?second"
    using unequal by (rule afterParentRender_rendered)
  have fetched: "requests ?second
     = [GetTechDocsMetadata (Obj (Caller 1) component_foo),
        GetEntityMetadata (Obj (Caller 1) component_foo),
        GetTechDocsMetadata (Obj (Caller 2) (component_foo \<lparr> name := Some ''bar'' \<rparr>)),
        GetEntityMetadata (Obj (Caller 2) (component_foo \<lparr> name := Some ''bar'' \<rparr>))]"
    by (simp add: mount_def requests_next_render requests_mount [unfolded mount_def])
  have dropped: "metadataSettled 1 (Inl (Error ''not found'')) ?second = ?second"
    by (rule metadataSettled_superseded)
      (simp add: metadata_cell_next_render metadata_cell_mount)
  have shown: "metadata (exposed (ownRender ?second route_overview))
     = \<lparr> loading = True, error = None, val = None \<rparr>"
    by (simp add: ownRender_def metadata_exposed_next_render metadata_cell_next_render
          metadata_cell_mount pending_def)
  show ?thesis
    by (simp only: made dropped shown fetched)
qed

subsection \<open>Renders skipped and renders made\<close>

text \<open>
  C7. When the parent renders the provider with a path prop \<open>p\<close> that differs from the
  path of the last render, and an entity reference that stringifies as before, the
  comparison of \<open>memo\<close> says the props differ, the render is made, and the exposed
  path is \<open>p\<close>.
\<close>

theorem path_change_is_rendered:
  assumes "areEntityRefsEqual stringifyEntityRef
             (props_entityRef (rendered_props fiber)) (props_entityRef nextProps)"
    and "props_path nextProps = Passed (Some p)"
    and "read_key (props_path (rendered_props fiber)) \<noteq> Some p"
  shows "\<not> propsAreEqual stringifyEntityRef (rendered_props fiber) nextProps
     \<and> parentRender stringifyEntityRef fiber nextProps params
         = Some (TechDocsReaderPageProvider (Some fiber) nextProps params)
     \<and> path (exposed (TechDocsReaderPageProvider (Some fiber) nextProps params)) = p"
  using assms
  by (simp add: propsAreEqual_def arePathsEqual_def parentRender_def
        TechDocsReaderPageProvider_def Let_def useTechDocsReaderPageState_def)

theorem path_change_is_rendered_witness:
  "areEntityRefsEqual stringifyPlain
     (props_entityRef (rendered_props
        (mount \<lparr> props_path = Passed (Some ''overview''),
                 props_entityRef = Obj (Caller 1) component_foo \<rparr>
           route_overview :: (unit, unit, unit) ProviderInstance)))
     (props_entityRef \<lparr> props_path = Passed (Some ''install''),
                         props_entityRef = Obj (Caller 1) component_foo \<rparr>)
   \<and> parentRender stringifyPlain
        (mount \<lparr> props_path = Passed (Some ''overview''),
                 props_entityRef = Obj (Caller 1) component_foo \<rparr>
           route_overview :: (unit, unit, unit) ProviderInstance)
        \<lparr> props_path = Passed (Some ''install''), props_entityRef = Obj (Caller 1) component_foo \<rparr>
        route_overview
      \<noteq> None
   \<and> path (exposed (TechDocsReaderPageProvider
        (Some (mount \<lparr> props_path = Passed (Some ''overview''),
                       props_entityRef = Obj (Caller 1) component_foo \<rparr>
                 route_overview :: (unit, unit, unit) ProviderInstance))
        \<lparr> props_path = Passed (Some ''install''), props_entityRef = Obj (Caller 1) component_foo \<rparr>
        route_overview))
      = ''install''"
proof -
  let ?prev = "\<lparr> props_path = Passed (Some ''overview''),
                 props_entityRef = Obj (Caller 1) component_foo \<rparr>"
  let ?next = "\<lparr> props_path = Passed (Some ''install''),
                 props_entityRef = Obj (Caller 1) component_foo \<rparr>"
  let ?fiber = "mount ?prev route_overview :: (unit, unit, unit) ProviderInstance"
  have same: "areEntityRefsEqual stringifyPlain
                (props_entityRef (rendered_props ?fiber)) (props_entityRef ?next)"
    by (simp add: rendered_props_mount areEntityRefsEqual_def)
  have string: "props_path ?next = Passed (Some ''install'')"
    by simp
  have changed: "read_key (props_path (rendered_props ?fiber)) \<noteq> Some ''install''"
    by (simp add: rendered_props_mount)
  from same path_change_is_rendered [OF same string changed, of route_overview]
  show ?thesis by simp
qed

text \<open>
  C1. The claim is that a parent render whose entity reference stringifies like the
  one before triggers no new metadata fetch, also when the path props differ. The
  code does not keep this: after a mount with the path \<open>overview\<close>, the parent renders
  the provider with the path \<open>install\<close> and a new object for the same entity. The two
  entity references stringify identically; the paths differ, so \<open>memo\<close> lets the
  render through; the dependency \<open>[entityRef]\<close> is another object; and the two fetches
  are made again.
\<close>

theorem fetches_despite_equal_stringification:
  "areEntityRefsEqual stringifyPlain (Obj (Caller 1) component_foo) (Obj (Caller 2) component_foo)
   \<and> requests (mount
        \<lparr> props_path = Passed (Some ''overview''), props_entityRef = Obj (Caller 1) component_foo \<rparr>
        route_overview :: (unit, unit, unit) ProviderInstance)
     = [GetTechDocsMetadata (Obj (Caller 1) component_foo),
        GetEntityMetadata (Obj (Caller 1) component_foo)]
   \<and> requests (afterParentRender stringifyPlain
        (mount
           \<lparr> props_path = Passed (Some ''overview''), props_entityRef = Obj (Caller 1) component_foo \<rparr>
           route_overview :: (unit, unit, unit) ProviderInstance)
        \<lparr> props_path = Passed (Some ''install''), props_entityRef = Obj (Caller 2) component_foo \<rparr>
        route_overview)
     = [GetTechDocsMetadata (Obj (Caller 1) component_foo),
        GetEntityMetadata (Obj (Caller 1) component_foo),
        GetTechDocsMetadata (Obj (Caller 2) component_foo),
        GetEntityMetadata (Obj (Caller 2) component_foo)]"
proof -
  let ?prev = "\<lparr> props_path = Passed (Some ''overview''),
                 props_entityRef = Obj (Caller 1) component_foo \<rparr>"
  let ?next = "\<lparr> props_path = Passed (Some ''install''),
                 props_entityRef = Obj (Caller 2) component_foo \<rparr>"
  have unequal: "\<not> propsAreEqual stringifyPlain ?prev ?next"
    by (simp add: propsAreEqual_def arePathsEqual_def)
  have "requests (afterParentRender stringifyPlain
          (mount ?prev route_overview :: (unit, unit, unit) ProviderInstance) ?next route_overview)
     = requests (mount ?prev route_overview :: (unit, unit, unit) ProviderInstance)
       @ [GetTechDocsMetadata (Obj (Caller 2) component_foo),
          GetEntityMetadata (Obj (Caller 2) component_foo)]"
    using unequal
    by (simp add: mount_def afterParentRender_rendered rendered_props_committed
          requests_next_render)
  then show ?thesis
    by (simp add: requests_mount areEntityRefsEqual_def)
qed

end
